theory Spec2Isabelle
  imports Main
begin

section \<open>Data model of the middleman verification workflow\<close>

text \<open>
  The verification controller works on three Mongoose collections: \<open>MiddlemanApplication\<close>,
  \<open>User\<close> and \<open>VerificationDocument\<close>. A collection is modelled as the list of its
  documents, a document as a record, an \<open>ObjectId\<close> as a natural number and a date as a
  natural number. The controller reads no clock but \<open>new Date()\<close>, which the model takes as
  the argument \<open>now\<close>.
\<close>

type_synonym object_id = nat
type_synonym timestamp = nat

text \<open>
  A JavaScript string is a sequence of UTF-16 code units. The strings that the controller
  only compares, tests for emptiness and stores are written as \<open>string\<close>; the two form
  fields that it cuts up with \<open>split\<close> and \<open>trim\<close>, whose result depends on the code
  units beyond ASCII, are lists of code units.
\<close>

type_synonym js_string = "nat list"

datatype app_status = Pending | Approved | Rejected

datatype user_role = RUser | Moderator | Admin | Middleman | Banned

record role_change =
  old_role :: user_role
  new_role :: user_role
  changed_by :: object_id
  changed_at :: timestamp
  change_reason :: string

record user =
  user_oid :: object_id
  role :: user_role
  role_history :: "role_change list"
  middleman_requested :: bool

record middleman_application =
  app_oid :: object_id
  user_id :: object_id
  experience :: string
  availability :: string
  why_middleman :: string
  referral_codes :: "string option"
  external_links :: "js_string list"
  preferred_trade_types :: "js_string list"
  documents :: "object_id list"
  status :: app_status
  reviewed_by :: "object_id option"
  reviewed_date :: "timestamp option"
  rejection_reason :: "string option"

record verification_document =
  doc_oid :: object_id
  doc_user_id :: object_id
  document_type :: string
  filename :: string
  original_filename :: string
  file_path :: string
  mime_type :: string
  file_size :: nat
  description :: string

text \<open>A file as multer hands it to the controller in \<open>req.files\<close>.\<close>

record upload =
  up_fieldname :: string
  up_originalname :: string
  up_filename :: string
  up_path :: string
  up_mimetype :: string
  up_size :: nat

text \<open>
  The database: the three collections and the next \<open>ObjectId\<close> the driver hands out
  when a document is constructed.
\<close>

record db =
  app_coll :: "middleman_application list"
  user_coll :: "user list"
  doc_coll :: "verification_document list"
  next_oid :: object_id

text \<open>
  A response is \<open>res.status(code).json(...)\<close>: an error carries the status code and the
  \<open>error\<close> string, a success the status code, the \<open>message\<close> string and, for a
  submission, the \<open>applicationId\<close>.
\<close>

datatype http_error = HttpError nat string

datatype http_ok = HttpOk nat string "object_id option"

subsection \<open>Collection primitives\<close>

text \<open>
  \<open>Model.findById\<close> and \<open>Model.findOne\<close> return the first document that matches;
  \<open>Model.updateOne\<close> changes the first document that matches and nothing when none
  does; \<open>doc.save()\<close> on a document that was read from the collection writes it back over
  the document with its \<open>_id\<close>.
\<close>

fun update_first :: "('a \<Rightarrow> bool) \<Rightarrow> ('a \<Rightarrow> 'a) \<Rightarrow> 'a list \<Rightarrow> 'a list" where
  "update_first P f [] = []"
| "update_first P f (x # xs) = (if P x then f x # xs else x # update_first P f xs)"

definition findById_app :: "object_id \<Rightarrow> db \<Rightarrow> middleman_application option" where
  "findById_app i d = find (\<lambda>a. app_oid a = i) (app_coll d)"

definition findById_user :: "object_id \<Rightarrow> db \<Rightarrow> user option" where
  "findById_user i d = find (\<lambda>u. user_oid u = i) (user_coll d)"

definition save_app :: "middleman_application \<Rightarrow> db \<Rightarrow> db" where
  "save_app a d = d\<lparr>app_coll := update_first (\<lambda>b. app_oid b = app_oid a) (\<lambda>b. a) (app_coll d)\<rparr>"

definition save_user :: "user \<Rightarrow> db \<Rightarrow> db" where
  "save_user u d = d\<lparr>user_coll := update_first (\<lambda>v. user_oid v = user_oid u) (\<lambda>v. u) (user_coll d)\<rparr>"

text \<open>
  JavaScript truthiness of a request field that is either absent or a string:
  \<open>!x\<close> holds for \<open>undefined\<close> and for the empty string.
\<close>

definition falsy :: "string option \<Rightarrow> bool" where
  "falsy x = (x = None \<or> x = Some [])"

section \<open>reviewApplication\<close>

text \<open>
  \<open>verificationController.reviewApplication\<close>. The arguments are the route parameter
  \<open>applicationId\<close>, the body fields \<open>action\<close> and \<open>reason\<close> (absent or a string),
  the reviewer \<open>req.user.userId\<close> and the date. The result is the response together with
  the database the call leaves behind: the application is saved before the applicant is
  looked up, so the \<open>User not found\<close> response comes with a changed database.
  Every read and write of the database succeeds in the model; an exception of the driver,
  which the controller answers with 500, is outside it.
\<close>

definition reviewApplication ::
  "db \<Rightarrow> object_id \<Rightarrow> string option \<Rightarrow> string option \<Rightarrow> object_id \<Rightarrow> timestamp
     \<Rightarrow> (http_error + http_ok) \<times> db" where
  "reviewApplication d applicationId action reason adminId now =
    (if action \<noteq> Some ''approve'' \<and> action \<noteq> Some ''reject'' then
       (Inl (HttpError 400 ''Invalid action''), d)
     else if action = Some ''reject'' \<and> falsy reason then
       (Inl (HttpError 400 ''Rejection reason is required''), d)
     else
       (case findById_app applicationId d of
          None \<Rightarrow> (Inl (HttpError 404 ''Application not found''), d)
        | Some application \<Rightarrow>
            if status application \<noteq> Pending then
              (Inl (HttpError 400 ''Application has already been processed''), d)
            else
              let application1 = application
                    \<lparr>status := (if action = Some ''approve'' then Approved else Rejected),
                     reviewed_by := Some adminId,
                     reviewed_date := Some now\<rparr>;
                  application2 =
                    (if action = Some ''reject''
                     then application1\<lparr>rejection_reason := reason\<rparr>
                     else application1);
                  d1 = save_app application2 d
              in
                (case findById_user (user_id application2) d1 of
                   None \<Rightarrow> (Inl (HttpError 404 ''User not found''), d1)
                 | Some usr \<Rightarrow>
                     let user1 =
                           (if action = Some ''approve'' then
                              let u = usr\<lparr>role := Middleman\<rparr>
                              in u\<lparr>role_history := role_history u @
                                    [\<lparr>old_role = role u,
                                      new_role = Middleman,
                                      changed_by = adminId,
                                      changed_at = now,
                                      change_reason = ''Middleman application approved''\<rparr>]\<rparr>
                            else usr);
                         user2 = user1\<lparr>middleman_requested := False\<rparr>;
                         d2 = save_user user2 d1
                     in
                       (Inr (HttpOk 200
                              (''Application '' @
                               (if action = Some ''approve'' then ''approved'' else ''rejected'') @
                               '' successfully'') None),
                        d2))))"

text \<open>
  The two guards at the head of \<open>reviewApplication\<close>, as one predicate on the request
  body: the action is one of the two strings, and a rejection carries a non-empty reason.
\<close>

definition passes_validation :: "string option \<Rightarrow> string option \<Rightarrow> bool" where
  "passes_validation action reason =
     ((action = Some ''approve'' \<or> action = Some ''reject'') \<and>
      \<not> (action = Some ''reject'' \<and> falsy reason))"

section \<open>submitApplication\<close>

text \<open>
  The body of the multipart request, as the controller destructures it: every field is
  absent or a string.
\<close>

record application_form =
  form_experience :: "string option"
  form_availability :: "string option"
  form_why_middleman :: "string option"
  form_referral_codes :: "string option"
  form_external_links :: "js_string option"
  form_preferred_trade_types :: "js_string option"

text \<open>
  \<open>s.split(',')\<close> cuts at every comma (code unit \<open>0x2C\<close>) and keeps empty pieces.
  \<open>trim()\<close> drops from both ends the code units that ECMAScript calls white space or
  line terminator: TAB, LF, VT, FF, CR, SPACE, NBSP \<open>U+00A0\<close>, \<open>U+1680\<close>,
  \<open>U+2000\<close> to \<open>U+200A\<close>, \<open>U+2028\<close>, \<open>U+2029\<close>, \<open>U+202F\<close>, \<open>U+205F\<close>,
  \<open>U+3000\<close> and \<open>U+FEFF\<close>.
\<close>

fun split_on :: "'a \<Rightarrow> 'a list \<Rightarrow> 'a list list" where
  "split_on c [] = [[]]"
| "split_on c (x # xs) =
     (if x = c then [] # split_on c xs
      else (case split_on c xs of [] \<Rightarrow> [[x]] | w # ws \<Rightarrow> (x # w) # ws))"

definition is_space :: "nat \<Rightarrow> bool" where
  "is_space c =
     (c \<in> set [0x09, 0x0A, 0x0B, 0x0C, 0x0D, 0x20, 0xA0, 0x1680,
                0x2028, 0x2029, 0x202F, 0x205F, 0x3000, 0xFEFF]
      \<or> (0x2000 \<le> c \<and> c \<le> 0x200A))"

definition trim :: "js_string \<Rightarrow> js_string" where
  "trim s = rev (dropWhile is_space (rev (dropWhile is_space s)))"

definition split_trim :: "js_string option \<Rightarrow> js_string list" where
  "split_trim x =
     (case x of
        None \<Rightarrow> []
      | Some s \<Rightarrow> if s = [] then [] else map trim (split_on 0x2C s))"

definition str_of :: "string option \<Rightarrow> string" where
  "str_of x = (case x of None \<Rightarrow> [] | Some s \<Rightarrow> s)"

text \<open>
  Modelled from the spec: the schema of \<open>MiddlemanApplication\<close>
  (\<open>models/MiddlemanApplication.js\<close>) is not among the sources, and with it the default of
  the \<open>status\<close> field, which \<open>submitApplication\<close> does not set. The specification says
  that the initial state is \<open>pending\<close> on submission.
\<close>

definition default_status :: app_status where
  "default_status = Pending"

text \<open>
  The loop over \<open>req.files\<close>: one \<open>VerificationDocument\<close> per file, saved, its id pushed
  on \<open>documentIds\<close>.
\<close>

fun save_documents :: "object_id \<Rightarrow> upload list \<Rightarrow> db \<Rightarrow> object_id list \<times> db" where
  "save_documents userId [] d = ([], d)"
| "save_documents userId (file # files) d =
     (let document =
            \<lparr>doc_oid = next_oid d,
             doc_user_id = userId,
             document_type =
               (if up_fieldname file = ''documents'' then ''other'' else up_fieldname file),
             filename = up_filename file,
             original_filename = up_originalname file,
             file_path = up_path file,
             mime_type = up_mimetype file,
             file_size = up_size file,
             description =
               (if up_fieldname file = ''id_card'' then ''Identity Verification''
                else ''Supporting Document'')\<rparr>;
          d1 = d\<lparr>doc_coll := doc_coll d @ [document], next_oid := Suc (next_oid d)\<rparr>;
          (documentIds, d2) = save_documents userId files d1
      in (doc_oid document # documentIds, d2))"

text \<open>
  \<open>verificationController.submitApplication\<close>: \<open>userId\<close> is \<open>req.user.userId\<close>,
  \<open>files\<close> is \<open>req.files\<close> (absent or a list). As in \<open>reviewApplication\<close>,
  every read and write of the database succeeds.
\<close>

definition submitApplication ::
  "db \<Rightarrow> object_id \<Rightarrow> application_form \<Rightarrow> upload list option \<Rightarrow> (http_error + http_ok) \<times> db" where
  "submitApplication d userId form files =
    (case find (\<lambda>a. user_id a = userId \<and> status a = Pending) (app_coll d) of
       Some existingApplication \<Rightarrow>
         (Inl (HttpError 400 ''You already have a pending middleman application''), d)
     | None \<Rightarrow>
         if falsy (form_experience form) \<or> falsy (form_availability form)
            \<or> falsy (form_why_middleman form) then
           (Inl (HttpError 400 ''Missing required fields''), d)
         else
           let application =
                 \<lparr>app_oid = next_oid d,
                  user_id = userId,
                  experience = str_of (form_experience form),
                  availability = str_of (form_availability form),
                  why_middleman = str_of (form_why_middleman form),
                  referral_codes = form_referral_codes form,
                  external_links = split_trim (form_external_links form),
                  preferred_trade_types = split_trim (form_preferred_trade_types form),
                  documents = [],
                  status = default_status,
                  reviewed_by = None,
                  reviewed_date = None,
                  rejection_reason = None\<rparr>;
               d0 = d\<lparr>next_oid := Suc (next_oid d)\<rparr>;
               (application1, d1) =
                 (case files of
                    None \<Rightarrow> (application, d0)
                  | Some fs \<Rightarrow>
                      if fs \<noteq> [] then
                        let (documentIds, d') = save_documents userId fs d0
                        in (application\<lparr>documents := documentIds\<rparr>, d')
                      else (application, d0));
               d2 = d1\<lparr>app_coll := app_coll d1 @ [application1]\<rparr>;
               d3 = d2\<lparr>user_coll :=
                          update_first (\<lambda>u. user_oid u = userId)
                            (\<lambda>u. u\<lparr>middleman_requested := True\<rparr>) (user_coll d2)\<rparr>
           in (Inr (HttpOk 201 ''Middleman application submitted successfully''
                     (Some (app_oid application1))),
               d3))"

text \<open>
  The invariant of the application collection: no user has two pending applications.
\<close>

definition pending_of :: "object_id \<Rightarrow> middleman_application list \<Rightarrow> middleman_application list" where
  "pending_of u apps = filter (\<lambda>b. user_id b = u \<and> status b = Pending) apps"

definition one_pending :: "db \<Rightarrow> bool" where
  "one_pending d = (\<forall>a \<in> set (app_coll d). length (pending_of (user_id a) (app_coll d)) \<le> 1)"

text \<open>
  What a review may do to one application document: leave it as it is, or move it from
  pending to a decided status, keeping its id and its applicant.
\<close>

definition review_step :: "middleman_application \<Rightarrow> middleman_application \<Rightarrow> bool" where
  "review_step x y =
     (y = x \<or> (status x = Pending \<and> status y \<noteq> Pending \<and>
                app_oid y = app_oid x \<and> user_id y = user_id x))"

section \<open>Vote toggle\<close>

datatype direction = Up | Down

text \<open>
  The part of a trade, forum post or event that voting reads and writes: the three have
  the same shape for voting.
\<close>

record votable =
  res_oid :: object_id
  owner :: object_id
  upvotes :: "object_id list"
  downvotes :: "object_id list"

record vote_response =
  resp_upvotes :: nat
  resp_downvotes :: nat
  userVote :: "direction option"

datatype vote_error = Unauthenticated | ResourceNotFound | OwnResource

text \<open>
  Modelled from the spec: the trade, forum and event vote controllers are not among the
  sources (only the components that call them are). Steps 1 to 4 of the contract of the
  vote toggle, read as one chain of cases in the order the specification gives them: an
  actor in neither list is added to the list of the direction; an actor already in the
  list of the direction is removed from it; otherwise the actor is in the opposite list,
  is removed from it and added to the list of the direction.
\<close>

definition toggle_vote :: "votable \<Rightarrow> object_id \<Rightarrow> direction \<Rightarrow> votable" where
  "toggle_vote r actor dir =
     (case dir of
        Up \<Rightarrow>
          if actor \<notin> set (upvotes r) \<and> actor \<notin> set (downvotes r) then
            r\<lparr>upvotes := upvotes r @ [actor]\<rparr>
          else if actor \<in> set (upvotes r) then
            r\<lparr>upvotes := removeAll actor (upvotes r)\<rparr>
          else
            r\<lparr>downvotes := removeAll actor (downvotes r), upvotes := upvotes r @ [actor]\<rparr>
      | Down \<Rightarrow>
          if actor \<notin> set (upvotes r) \<and> actor \<notin> set (downvotes r) then
            r\<lparr>downvotes := downvotes r @ [actor]\<rparr>
          else if actor \<in> set (downvotes r) then
            r\<lparr>downvotes := removeAll actor (downvotes r)\<rparr>
          else
            r\<lparr>upvotes := removeAll actor (upvotes r), downvotes := downvotes r @ [actor]\<rparr>)"

text \<open>
  Modelled from the spec: the actor's vote state is a membership test on the two lists.
\<close>

definition vote_state :: "votable \<Rightarrow> object_id \<Rightarrow> direction option" where
  "vote_state r actor =
     (if actor \<in> set (upvotes r) then Some Up
      else if actor \<in> set (downvotes r) then Some Down
      else None)"

definition findById_votable :: "object_id \<Rightarrow> votable list \<Rightarrow> votable option" where
  "findById_votable i rs = find (\<lambda>r. res_oid r = i) rs"

text \<open>
  Modelled from the spec: the vote operation on a collection of votable resources. The
  caller is the identity the authentication middleware attached, if any. Step 5 persists
  the resource and returns the two counts and the actor's resulting vote state. The error
  conditions are those of the contract: an unauthenticated caller, an unknown resource,
  and a vote on one's own resource. The specification records that the last rule is not
  enforced by every controller, so whether a controller enforces it is the parameter
  \<open>own_rule\<close>.
\<close>

definition vote ::
  "bool \<Rightarrow> votable list \<Rightarrow> object_id \<Rightarrow> object_id option \<Rightarrow> direction
     \<Rightarrow> vote_error + (vote_response \<times> votable list)" where
  "vote own_rule rs rid caller dir =
     (case caller of
        None \<Rightarrow> Inl Unauthenticated
      | Some actor \<Rightarrow>
          (case findById_votable rid rs of
             None \<Rightarrow> Inl ResourceNotFound
           | Some r \<Rightarrow>
               if own_rule \<and> owner r = actor then Inl OwnResource
               else
                 let r' = toggle_vote r actor dir
                 in Inr (\<lparr>resp_upvotes = length (upvotes r'),
                          resp_downvotes = length (downvotes r'),
                          userVote = vote_state r' actor\<rparr>,
                         update_first (\<lambda>x. res_oid x = rid) (\<lambda>x. r') rs)))"

text \<open>
  The data-model invariant of a votable resource for one user: the user's recorded vote
  is at most one of up, down and none.
\<close>

definition at_most_one_vote :: "votable \<Rightarrow> object_id \<Rightarrow> bool" where
  "at_most_one_vote r u = (\<not> (u \<in> set (upvotes r) \<and> u \<in> set (downvotes r)))"

section \<open>Concrete data\<close>

text \<open>
  A small database for the concrete instances below: user 1 has a pending application 10,
  user 2 an approved application 20, and application 30 is pending for a user 3 who no
  longer exists.
\<close>

definition mk_app :: "object_id \<Rightarrow> object_id \<Rightarrow> app_status \<Rightarrow> middleman_application" where
  "mk_app i u s =
     \<lparr>app_oid = i, user_id = u, experience = ''two years'', availability = ''evenings'',
      why_middleman = ''to help'', referral_codes = None, external_links = [],
      preferred_trade_types = [], documents = [], status = s,
      reviewed_by = (if s = Pending then None else Some 9),
      reviewed_date = (if s = Pending then None else Some 50),
      rejection_reason = None\<rparr>"

definition mk_user :: "object_id \<Rightarrow> user_role \<Rightarrow> bool \<Rightarrow> user" where
  "mk_user i r q = \<lparr>user_oid = i, role = r, role_history = [], middleman_requested = q\<rparr>"

definition db0 :: db where
  "db0 = \<lparr>app_coll = [mk_app 10 1 Pending, mk_app 20 2 Approved, mk_app 30 3 Pending],
          user_coll = [mk_user 1 RUser True, mk_user 2 Middleman False, mk_user 9 Admin False],
          doc_coll = [],
          next_oid = 31\<rparr>"

definition form0 :: application_form where
  "form0 = \<lparr>form_experience = Some ''two years'', form_availability = Some ''evenings'',
            form_why_middleman = Some ''to help'', form_referral_codes = None,
            form_external_links = Some (map of_char ''a.example, b.example''),
            form_preferred_trade_types = None\<rparr>"

text \<open>Trade 5 of user 1, without votes and with the up vote of user 2.\<close>

definition trade0 :: votable where
  "trade0 = \<lparr>res_oid = 5, owner = 1, upvotes = [], downvotes = []\<rparr>"

definition trade1 :: votable where
  "trade1 = \<lparr>res_oid = 5, owner = 1, upvotes = [2], downvotes = []\<rparr>"

text \<open>Trade 5 with user 2 in both lists, and with the down vote of user 2 only.\<close>

definition trade_both :: votable where
  "trade_both = \<lparr>res_oid = 5, owner = 1, upvotes = [2], downvotes = [2]\<rparr>"

definition trade_down :: votable where
  "trade_down = \<lparr>res_oid = 5, owner = 1, upvotes = [], downvotes = [2]\<rparr>"

section \<open>Splitting and trimming, on examples\<close>

lemma trim_unicode_space: "trim [0xA0, 0x61, 0x2003, 0x62, 0xFEFF, 0x20] = [0x61, 0x2003, 0x62]"
  by (simp add: trim_def is_space_def)

lemma split_trim_links:
  "split_trim (Some (map of_char ''a.example, b.example'')) =
     [map of_char ''a.example'', map of_char ''b.example'']"
  by (simp add: split_trim_def trim_def is_space_def)

lemma split_trim_keeps_empty: "split_trim (Some [0x61, 0x2C, 0x20, 0x2C]) = [[0x61], [], []]"
  by (simp add: split_trim_def trim_def is_space_def)

section \<open>Facts about the collection primitives\<close>

lemma find_update_first:
  "(\<And>x. P x \<Longrightarrow> P (f x)) \<Longrightarrow> find P (update_first P f xs) = map_option f (find P xs)"
  by (induction xs) auto

lemma filter_update_first_le:
  "(\<And>x. P x \<Longrightarrow> Q (f x) \<Longrightarrow> Q x) \<Longrightarrow>
     length (filter Q (update_first P f xs)) \<le> length (filter Q xs)"
  by (induction xs) auto

lemma findById_app_oid: "findById_app i d = Some a \<Longrightarrow> app_oid a = i"
  by (auto simp: findById_app_def find_Some_iff)

lemma findById_user_oid: "findById_user i d = Some u \<Longrightarrow> user_oid u = i"
  by (auto simp: findById_user_def find_Some_iff)

lemma findById_user_save_app: "findById_user i (save_app a d) = findById_user i d"
  by (simp add: findById_user_def save_app_def)

lemma findById_app_save_user: "findById_app i (save_user u d) = findById_app i d"
  by (simp add: findById_app_def save_user_def)

lemma findById_app_save_app:
  "findById_app i d = Some a \<Longrightarrow> app_oid b = i \<Longrightarrow> findById_app i (save_app b d) = Some b"
  by (simp add: findById_app_def save_app_def find_update_first)

lemma findById_user_save_user:
  "findById_user i d = Some u \<Longrightarrow> user_oid v = i \<Longrightarrow> findById_user i (save_user v d) = Some v"
  by (simp add: findById_user_def save_user_def find_update_first)

lemma user_coll_save_app: "user_coll (save_app a d) = user_coll d"
  by (simp add: save_app_def)

lemma app_coll_save_user: "app_coll (save_user u d) = app_coll d"
  by (simp add: save_user_def)

lemmas review_simps =
  findById_app_oid findById_user_oid findById_user_save_app findById_app_save_user
  findById_app_save_app findById_user_save_user user_coll_save_app app_coll_save_user
section \<open>Properties of reviewApplication\<close>

text \<open>
  C1. Approving a pending application whose applicant exists answers 200, leaves the
  application with status \<open>approved\<close>, the applicant with role \<open>middleman\<close>, with
  exactly one entry appended to the role history, and with \<open>middleman_requested\<close> false.
\<close>

theorem C1_approve:
  assumes "findById_app applicationId d = Some a"
    and "status a = Pending"
    and "findById_user (user_id a) d = Some u"
  shows "\<exists>d' a' u' e.
           reviewApplication d applicationId (Some ''approve'') reason adminId now =
             (Inr (HttpOk 200 ''Application approved successfully'' None), d')
         \<and> findById_app applicationId d' = Some a' \<and> status a' = Approved
         \<and> findById_user (user_id a) d' = Some u' \<and> role u' = Middleman
         \<and> role_history u' = role_history u @ [e]
         \<and> \<not> middleman_requested u'"
  using assms
  by (simp add: reviewApplication_def Let_def review_simps)

theorem C1_approve_witness:
  "findById_app 10 db0 = Some (mk_app 10 1 Pending)
   \<and> status (mk_app 10 1 Pending) = Pending
   \<and> findById_user (user_id (mk_app 10 1 Pending)) db0 = Some (mk_user 1 RUser True)
   \<and> (\<exists>d' a' u' e.
         reviewApplication db0 10 (Some ''approve'') None 9 100 =
           (Inr (HttpOk 200 ''Application approved successfully'' None), d')
       \<and> findById_app 10 d' = Some a' \<and> status a' = Approved
       \<and> findById_user (user_id (mk_app 10 1 Pending)) d' = Some u' \<and> role u' = Middleman
       \<and> role_history u' = role_history (mk_user 1 RUser True) @ [e]
       \<and> \<not> middleman_requested u')"
proof -
  have h1: "findById_app 10 db0 = Some (mk_app 10 1 Pending)"
    by (simp add: findById_app_def db0_def mk_app_def)
  have h2: "status (mk_app 10 1 Pending) = Pending"
    by (simp add: mk_app_def)
  have h3: "findById_user (user_id (mk_app 10 1 Pending)) db0 = Some (mk_user 1 RUser True)"
    by (simp add: findById_user_def db0_def mk_app_def mk_user_def)
  from h1 h2 h3 C1_approve [OF h1 h2 h3, of None 9 100] show ?thesis by blast
qed

text \<open>
  C5. A review with action \<open>reject\<close> whose reason is missing or empty is answered with
  the validation error 400 \<open>Rejection reason is required\<close> and leaves the whole database
  (applications and users) as it was, so an application that was pending is still pending.
\<close>

theorem C5_reject_without_reason:
  "falsy reason \<Longrightarrow>
     reviewApplication d applicationId (Some ''reject'') reason adminId now =
       (Inl (HttpError 400 ''Rejection reason is required''), d)"
  by (simp add: reviewApplication_def)

theorem C5_reject_without_reason_witness:
  "falsy (Some [])
   \<and> reviewApplication db0 10 (Some ''reject'') (Some []) 9 100 =
       (Inl (HttpError 400 ''Rejection reason is required''), db0)
   \<and> findById_app 10 db0 = Some (mk_app 10 1 Pending)"
proof -
  have h: "falsy (Some [])" by (simp add: falsy_def)
  have "findById_app 10 db0 = Some (mk_app 10 1 Pending)"
    by (simp add: findById_app_def db0_def mk_app_def)
  with h C5_reject_without_reason [OF h, of db0 10 9 100] show ?thesis by simp
qed

text \<open>
  C8. Rejecting a pending application whose applicant exists, with a non-empty reason,
  answers 200, leaves the application with status \<open>rejected\<close> and the reason stored as
  \<open>rejection_reason\<close>, and leaves the applicant's role (and role history) as before.
\<close>

theorem C8_reject:
  assumes "findById_app applicationId d = Some a"
    and "status a = Pending"
    and "findById_user (user_id a) d = Some u"
    and "reason = Some txt" and "txt \<noteq> []"
  shows "\<exists>d' a' u'.
           reviewApplication d applicationId (Some ''reject'') reason adminId now =
             (Inr (HttpOk 200 ''Application rejected successfully'' None), d')
         \<and> findById_app applicationId d' = Some a' \<and> status a' = Rejected
         \<and> rejection_reason a' = Some txt
         \<and> findById_user (user_id a) d' = Some u' \<and> role u' = role u
         \<and> role_history u' = role_history u"
  using assms
  by (simp add: reviewApplication_def Let_def falsy_def review_simps)

theorem C8_reject_witness:
  "findById_app 10 db0 = Some (mk_app 10 1 Pending)
   \<and> status (mk_app 10 1 Pending) = Pending
   \<and> findById_user (user_id (mk_app 10 1 Pending)) db0 = Some (mk_user 1 RUser True)
   \<and> ''incomplete'' \<noteq> []
   \<and> (\<exists>d' a' u'.
         reviewApplication db0 10 (Some ''reject'') (Some ''incomplete'') 9 100 =
           (Inr (HttpOk 200 ''Application rejected successfully'' None), d')
       \<and> findById_app 10 d' = Some a' \<and> status a' = Rejected
       \<and> rejection_reason a' = Some ''incomplete''
       \<and> findById_user (user_id (mk_app 10 1 Pending)) d' = Some u'
       \<and> role u' = role (mk_user 1 RUser True)
       \<and> role_history u' = role_history (mk_user 1 RUser True))"
proof -
  have h1: "findById_app 10 db0 = Some (mk_app 10 1 Pending)"
    by (simp add: findById_app_def db0_def mk_app_def)
  have h2: "status (mk_app 10 1 Pending) = Pending"
    by (simp add: mk_app_def)
  have h3: "findById_user (user_id (mk_app 10 1 Pending)) db0 = Some (mk_user 1 RUser True)"
    by (simp add: findById_user_def db0_def mk_app_def mk_user_def)
  have h4: "Some ''incomplete'' = Some ''incomplete''" by simp
  have h5: "''incomplete'' \<noteq> []" by simp
  from h1 h2 h3 h5 C8_reject [OF h1 h2 h3 h4 h5, of 9 100] show ?thesis by blast
qed

text \<open>
  C9. Whenever a review succeeds, with action \<open>reject\<close> as with action \<open>approve\<close>, the
  applicant's \<open>middleman_requested\<close> flag is false afterwards: the flag is cleared on
  both outcomes.
\<close>

theorem C9_flag_cleared:
  assumes "findById_app applicationId d = Some a"
    and "fst (reviewApplication d applicationId action reason adminId now) = Inr ok"
  shows "\<exists>u'. findById_user (user_id a)
                 (snd (reviewApplication d applicationId action reason adminId now)) = Some u'
              \<and> \<not> middleman_requested u'"
  using assms
  by (auto simp: reviewApplication_def Let_def review_simps split: if_splits option.splits)

theorem C9_flag_cleared_witness:
  "findById_app 10 db0 = Some (mk_app 10 1 Pending)
   \<and> fst (reviewApplication db0 10 (Some ''reject'') (Some ''incomplete'') 9 100) =
       Inr (HttpOk 200 ''Application rejected successfully'' None)
   \<and> middleman_requested (mk_user 1 RUser True)
   \<and> (\<exists>u'. findById_user (user_id (mk_app 10 1 Pending))
              (snd (reviewApplication db0 10 (Some ''reject'') (Some ''incomplete'') 9 100)) =
              Some u'
            \<and> \<not> middleman_requested u')"
proof -
  have h1: "findById_app 10 db0 = Some (mk_app 10 1 Pending)"
    by (simp add: findById_app_def db0_def mk_app_def)
  have h2: "fst (reviewApplication db0 10 (Some ''reject'') (Some ''incomplete'') 9 100) =
       Inr (HttpOk 200 ''Application rejected successfully'' None)"
    by (simp add: reviewApplication_def falsy_def findById_app_def findById_user_def
        save_app_def save_user_def db0_def mk_app_def mk_user_def)
  have h3: "middleman_requested (mk_user 1 RUser True)"
    by (simp add: mk_user_def)
  from h1 h2 h3 C9_flag_cleared [OF h1 h2] show ?thesis by blast
qed

text \<open>
  C10. On a successful approval the entry appended to the applicant's role history has
  \<open>old_role\<close> equal to \<open>middleman\<close>, the role just assigned, whatever role the user held
  before: the role is overwritten before the entry is built.
\<close>

theorem C10_old_role:
  assumes "findById_app applicationId d = Some a"
    and "status a = Pending"
    and "findById_user (user_id a) d = Some u"
  shows "\<exists>u' e. findById_user (user_id a)
                 (snd (reviewApplication d applicationId (Some ''approve'') reason adminId now)) = Some u'
              \<and> role_history u' = role_history u @ [e]
              \<and> old_role e = Middleman
              \<and> new_role e = Middleman"
  using assms
  by (simp add: reviewApplication_def Let_def review_simps)

theorem C10_old_role_witness:
  "findById_app 10 db0 = Some (mk_app 10 1 Pending)
   \<and> status (mk_app 10 1 Pending) = Pending
   \<and> findById_user (user_id (mk_app 10 1 Pending)) db0 = Some (mk_user 1 RUser True)
   \<and> role (mk_user 1 RUser True) = RUser
   \<and> (\<exists>u' e. findById_user (user_id (mk_app 10 1 Pending))
              (snd (reviewApplication db0 10 (Some ''approve'') None 9 100)) = Some u'
            \<and> role_history u' = role_history (mk_user 1 RUser True) @ [e]
            \<and> old_role e = Middleman
            \<and> new_role e = Middleman)"
proof -
  have h1: "findById_app 10 db0 = Some (mk_app 10 1 Pending)"
    by (simp add: findById_app_def db0_def mk_app_def)
  have h2: "status (mk_app 10 1 Pending) = Pending"
    by (simp add: mk_app_def)
  have h3: "findById_user (user_id (mk_app 10 1 Pending)) db0 = Some (mk_user 1 RUser True)"
    by (simp add: findById_user_def db0_def mk_app_def mk_user_def)
  have h4: "role (mk_user 1 RUser True) = RUser"
    by (simp add: mk_user_def)
  from h1 h2 h3 h4 C10_old_role [OF h1 h2 h3, of None 9 100] show ?thesis by blast
qed

text \<open>
  C6, as the code has it. A review that passes the validation of the request (the action
  is \<open>approve\<close> or \<open>reject\<close>, and a rejection has a non-empty reason), on a pending
  application whose applicant does not exist, is answered with 404 \<open>User not found\<close>,
  and the database it leaves holds the application with its new status; the users are as
  before.
\<close>

theorem C6_user_missing:
  assumes "findById_app applicationId d = Some a"
    and "status a = Pending"
    and "findById_user (user_id a) d = None"
    and "passes_validation action reason"
  shows "\<exists>d' a'.
           reviewApplication d applicationId action reason adminId now =
             (Inl (HttpError 404 ''User not found''), d')
         \<and> findById_app applicationId d' = Some a'
         \<and> status a' = (if action = Some ''approve'' then Approved else Rejected)
         \<and> user_coll d' = user_coll d"
  using assms
  by (auto simp: reviewApplication_def Let_def passes_validation_def review_simps)

theorem C6_user_missing_witness:
  "findById_app 30 db0 = Some (mk_app 30 3 Pending)
   \<and> status (mk_app 30 3 Pending) = Pending
   \<and> findById_user (user_id (mk_app 30 3 Pending)) db0 = None
   \<and> passes_validation (Some ''approve'') None
   \<and> (\<exists>d' a'.
         reviewApplication db0 30 (Some ''approve'') None 9 100 =
           (Inl (HttpError 404 ''User not found''), d')
       \<and> findById_app 30 d' = Some a'
       \<and> status a' = Approved
       \<and> user_coll d' = user_coll db0)"
proof -
  have h1: "findById_app 30 db0 = Some (mk_app 30 3 Pending)"
    by (simp add: findById_app_def db0_def mk_app_def)
  have h2: "status (mk_app 30 3 Pending) = Pending"
    by (simp add: mk_app_def)
  have h3: "findById_user (user_id (mk_app 30 3 Pending)) db0 = None"
    by (simp add: findById_user_def db0_def mk_app_def mk_user_def)
  have h4: "passes_validation (Some ''approve'') None"
    by (simp add: passes_validation_def)
  from C6_user_missing [OF h1 h2 h3 h4, of 9 100]
  have "\<exists>d' a'.
         reviewApplication db0 30 (Some ''approve'') None 9 100 =
           (Inl (HttpError 404 ''User not found''), d')
       \<and> findById_app 30 d' = Some a'
       \<and> status a' = Approved
       \<and> user_coll d' = user_coll db0"
    by simp
  with h1 h2 h3 h4 show ?thesis by blast
qed

text \<open>
  The claim C6 as written, for every review call, fails: a rejection with an empty reason
  of the pending application 30, whose applicant does not exist, is answered with the
  validation error, not with a not-found error, and the application is not saved.
\<close>

theorem C6_counterexample:
  "findById_app 30 db0 = Some (mk_app 30 3 Pending)
   \<and> status (mk_app 30 3 Pending) = Pending
   \<and> findById_user (user_id (mk_app 30 3 Pending)) db0 = None
   \<and> reviewApplication db0 30 (Some ''reject'') (Some []) 9 100 =
       (Inl (HttpError 400 ''Rejection reason is required''), db0)"
  by (simp add: reviewApplication_def falsy_def findById_app_def findById_user_def
      db0_def mk_app_def mk_user_def)

lemma review_not_pending:
  assumes "findById_app applicationId d = Some a" and "status a \<noteq> Pending"
  shows "reviewApplication d applicationId action reason adminId now =
           (if passes_validation action reason
            then (Inl (HttpError 400 ''Application has already been processed''), d)
            else if action \<noteq> Some ''approve'' \<and> action \<noteq> Some ''reject''
            then (Inl (HttpError 400 ''Invalid action''), d)
            else (Inl (HttpError 400 ''Rejection reason is required''), d))"
  using assms by (auto simp: reviewApplication_def passes_validation_def)

lemma review_success_processed:
  assumes "fst (reviewApplication d applicationId action reason adminId now) = Inr ok"
  shows "\<exists>a'. findById_app applicationId
                 (snd (reviewApplication d applicationId action reason adminId now)) = Some a'
              \<and> status a' \<noteq> Pending"
  using assms
  by (auto simp: reviewApplication_def Let_def review_simps split: if_splits option.splits)

text \<open>
  C4, as the code has it. On an application that is not pending, every review call is
  answered with a 400 error and leaves the database unchanged; the error is the conflict
  \<open>Application has already been processed\<close> when the request passes the validation
  (otherwise it is the validation error, which the controller raises first). In
  particular, after a successful review every further review of the same application
  that passes the validation is answered with the conflict and changes nothing.
\<close>

theorem C4_processed:
  "(findById_app applicationId d = Some a \<and> status a \<noteq> Pending \<longrightarrow>
      (\<exists>msg. reviewApplication d applicationId action reason adminId now =
                (Inl (HttpError 400 msg), d)) \<and>
      (passes_validation action reason \<longrightarrow>
         reviewApplication d applicationId action reason adminId now =
           (Inl (HttpError 400 ''Application has already been processed''), d)))
   \<and> (fst (reviewApplication d applicationId action0 reason0 adminId0 now0) = Inr ok \<and>
        passes_validation action reason \<longrightarrow>
      reviewApplication (snd (reviewApplication d applicationId action0 reason0 adminId0 now0))
          applicationId action reason adminId now =
        (Inl (HttpError 400 ''Application has already been processed''),
         snd (reviewApplication d applicationId action0 reason0 adminId0 now0)))"
proof (intro conjI impI)
  assume h: "findById_app applicationId d = Some a \<and> status a \<noteq> Pending"
  then show "\<exists>msg. reviewApplication d applicationId action reason adminId now =
                (Inl (HttpError 400 msg), d)"
    by (simp add: review_not_pending)
  assume "passes_validation action reason"
  with h show "reviewApplication d applicationId action reason adminId now =
           (Inl (HttpError 400 ''Application has already been processed''), d)"
    by (simp add: review_not_pending)
next
  assume h: "fst (reviewApplication d applicationId action0 reason0 adminId0 now0) = Inr ok \<and>
        passes_validation action reason"
  then obtain a' where
    "findById_app applicationId
       (snd (reviewApplication d applicationId action0 reason0 adminId0 now0)) = Some a'"
    "status a' \<noteq> Pending"
    using review_success_processed by blast
  with h show "reviewApplication (snd (reviewApplication d applicationId action0 reason0 adminId0 now0))
          applicationId action reason adminId now =
        (Inl (HttpError 400 ''Application has already been processed''),
         snd (reviewApplication d applicationId action0 reason0 adminId0 now0))"
    by (simp add: review_not_pending)
qed

theorem C4_processed_witness:
  "findById_app 20 db0 = Some (mk_app 20 2 Approved)
   \<and> status (mk_app 20 2 Approved) \<noteq> Pending
   \<and> passes_validation (Some ''approve'') None
   \<and> reviewApplication db0 20 (Some ''approve'') None 9 100 =
       (Inl (HttpError 400 ''Application has already been processed''), db0)
   \<and> fst (reviewApplication db0 10 (Some ''approve'') None 9 100) =
       Inr (HttpOk 200 ''Application approved successfully'' None)
   \<and> reviewApplication (snd (reviewApplication db0 10 (Some ''approve'') None 9 100))
         10 (Some ''approve'') None 9 101 =
       (Inl (HttpError 400 ''Application has already been processed''),
        snd (reviewApplication db0 10 (Some ''approve'') None 9 100))"
proof -
  have h1: "findById_app 20 db0 = Some (mk_app 20 2 Approved)"
    by (simp add: findById_app_def db0_def mk_app_def)
  have h2: "status (mk_app 20 2 Approved) \<noteq> Pending"
    by (simp add: mk_app_def)
  have h3: "passes_validation (Some ''approve'') None"
    by (simp add: passes_validation_def)
  have h4: "fst (reviewApplication db0 10 (Some ''approve'') None 9 100) =
       Inr (HttpOk 200 ''Application approved successfully'' None)"
    by (simp add: reviewApplication_def findById_app_def findById_user_def
        save_app_def save_user_def db0_def mk_app_def mk_user_def)
  from h1 h2 h3 h4
    C4_processed [of 20 db0 "mk_app 20 2 Approved" "Some ''approve''" None 9 100]
    C4_processed [of 10 db0 _ "Some ''approve''" None 9 101 "Some ''approve''" None 9 100]
  show ?thesis by blast
qed

text \<open>
  The claim C4 as written, for every review call, fails: a rejection without a reason of
  the approved application 20 is answered with the validation error, not with the
  conflict.
\<close>

theorem C4_counterexample:
  "findById_app 20 db0 = Some (mk_app 20 2 Approved)
   \<and> status (mk_app 20 2 Approved) = Approved
   \<and> reviewApplication db0 20 (Some ''reject'') None 9 100 =
       (Inl (HttpError 400 ''Rejection reason is required''), db0)
   \<and> HttpError 400 ''Rejection reason is required'' \<noteq>
       HttpError 400 ''Application has already been processed''"
  by (simp add: reviewApplication_def falsy_def findById_app_def db0_def mk_app_def)

section \<open>At most one pending application per user\<close>

lemma one_pending_all: "one_pending d = (\<forall>u. length (pending_of u (app_coll d)) \<le> 1)"
proof
  assume h: "one_pending d"
  show "\<forall>u. length (pending_of u (app_coll d)) \<le> 1"
  proof
    fix u
    show "length (pending_of u (app_coll d)) \<le> 1"
    proof (cases "pending_of u (app_coll d)")
      case Nil
      then show ?thesis by simp
    next
      case (Cons b bs)
      then have "b \<in> set (pending_of u (app_coll d))" by simp
      then have "b \<in> set (app_coll d)" "user_id b = u" by (auto simp: pending_of_def)
      with h show ?thesis by (auto simp: one_pending_def)
    qed
  qed
next
  assume "\<forall>u. length (pending_of u (app_coll d)) \<le> 1"
  then show "one_pending d" by (simp add: one_pending_def)
qed

lemma save_documents_colls:
  "save_documents userId files d = (ids, d') \<Longrightarrow>
     app_coll d' = app_coll d \<and> user_coll d' = user_coll d"
proof (induction files arbitrary: d ids d')
  case Nil
  then show ?case by simp
next
  case (Cons f fs)
  from Cons.prems obtain d1 ids2 where
    step: "save_documents userId fs d1 = (ids2, d')"
    and d1: "app_coll d1 = app_coll d" "user_coll d1 = user_coll d"
    by (auto simp: Let_def split: prod.splits)
  from Cons.IH [OF step] d1 show ?case by simp
qed

lemma submit_app_coll:
  "app_coll (snd (submitApplication d userId form files)) = app_coll d \<or>
   (find (\<lambda>a. user_id a = userId \<and> status a = Pending) (app_coll d) = None \<and>
    (\<exists>b. user_id b = userId \<and> status b = Pending \<and>
       app_coll (snd (submitApplication d userId form files)) = app_coll d @ [b]))"
proof (cases "files")
  case None
  then show ?thesis
    by (auto simp: submitApplication_def Let_def default_status_def split: option.splits)
next
  case (Some fs)
  obtain ids d' where sd: "save_documents userId fs (d\<lparr>next_oid := Suc (next_oid d)\<rparr>) = (ids, d')"
    by (cases "save_documents userId fs (d\<lparr>next_oid := Suc (next_oid d)\<rparr>)")
  have "app_coll d' = app_coll d"
    using save_documents_colls [OF sd] by simp
  with Some sd show ?thesis
    by (auto simp: submitApplication_def Let_def default_status_def split: option.splits)
qed

lemma submit_preserves:
  assumes inv: "one_pending d"
  shows "one_pending (snd (submitApplication d userId form files))"
proof -
  let ?d' = "snd (submitApplication d userId form files)"
  from submit_app_coll [of d userId form files]
  consider "app_coll ?d' = app_coll d"
    | b where "find (\<lambda>a. user_id a = userId \<and> status a = Pending) (app_coll d) = None"
        "user_id b = userId" "status b = Pending" "app_coll ?d' = app_coll d @ [b]"
    by blast
  then show ?thesis
  proof cases
    case 1
    with inv show ?thesis by (simp add: one_pending_all)
  next
    case 2
    from 2(1) have none: "pending_of userId (app_coll d) = []"
      by (auto simp: pending_of_def find_None_iff filter_empty_conv)
    show ?thesis
      unfolding one_pending_all
    proof
      fix u
      show "length (pending_of u (app_coll ?d')) \<le> 1"
      proof (cases "u = userId")
        case True
        with none 2 show ?thesis by (simp add: pending_of_def)
      next
        case False
        with inv 2 show ?thesis by (simp add: pending_of_def one_pending_all)
      qed
    qed
  qed
qed


lemma list_all2_update_first:
  "find P xs = Some a \<Longrightarrow> R a (f a) \<Longrightarrow> (\<And>x. R x x) \<Longrightarrow>
     list_all2 R xs (update_first P f xs)"
  by (induction xs) (auto simp: list_all2_refl)

lemma review_unchanged:
  assumes "\<not> passes_validation action reason \<or> findById_app applicationId d = None \<or>
           (\<exists>a. findById_app applicationId d = Some a \<and> status a \<noteq> Pending)"
  shows "snd (reviewApplication d applicationId action reason adminId now) = d"
  using assms by (auto simp: reviewApplication_def passes_validation_def)

lemma review_pending_app_coll:
  assumes "passes_validation action reason"
    and "findById_app applicationId d = Some a" and "status a = Pending"
  shows "app_coll (snd (reviewApplication d applicationId action reason adminId now)) =
           update_first (\<lambda>x. app_oid x = applicationId)
             (\<lambda>x. a\<lparr>status := (if action = Some ''approve'' then Approved else Rejected),
                     reviewed_by := Some adminId, reviewed_date := Some now,
                     rejection_reason :=
                       (if action = Some ''reject'' then reason else rejection_reason a)\<rparr>)
             (app_coll d)"
  using assms
  by (auto simp: reviewApplication_def Let_def save_app_def save_user_def findById_app_oid
      passes_validation_def split: option.splits)

lemma review_app_coll:
  "app_coll (snd (reviewApplication d applicationId action reason adminId now)) = app_coll d \<or>
   (\<exists>a b. findById_app applicationId d = Some a \<and> status a = Pending \<and>
      status b \<noteq> Pending \<and> app_oid b = app_oid a \<and> user_id b = user_id a \<and>
      app_coll (snd (reviewApplication d applicationId action reason adminId now)) =
        update_first (\<lambda>x. app_oid x = applicationId) (\<lambda>x. b) (app_coll d))"
proof (cases "passes_validation action reason \<and>
              (\<exists>a. findById_app applicationId d = Some a \<and> status a = Pending)")
  case True
  then obtain a where a: "findById_app applicationId d = Some a" "status a = Pending"
    and v: "passes_validation action reason" by blast
  let ?b = "a\<lparr>status := (if action = Some ''approve'' then Approved else Rejected),
                     reviewed_by := Some adminId, reviewed_date := Some now,
                     rejection_reason :=
                       (if action = Some ''reject'' then reason else rejection_reason a)\<rparr>"
  have "status ?b \<noteq> Pending" "app_oid ?b = app_oid a" "user_id ?b = user_id a" by simp_all
  with a review_pending_app_coll [OF v a] show ?thesis by blast
next
  case False
  then have "\<not> passes_validation action reason \<or> findById_app applicationId d = None \<or>
           (\<exists>a. findById_app applicationId d = Some a \<and> status a \<noteq> Pending)"
    by (cases "findById_app applicationId d") auto
  then show ?thesis by (simp add: review_unchanged)
qed

lemma review_preserves:
  assumes "one_pending d"
  shows "one_pending (snd (reviewApplication d applicationId action reason adminId now))"
proof -
  let ?d' = "snd (reviewApplication d applicationId action reason adminId now)"
  from review_app_coll [of d applicationId action reason adminId now]
  consider "app_coll ?d' = app_coll d"
    | b where "status b \<noteq> Pending"
        "app_coll ?d' = update_first (\<lambda>x. app_oid x = applicationId) (\<lambda>x. b) (app_coll d)"
    by blast
  then show ?thesis
  proof cases
    case 1
    with assms show ?thesis by (simp add: one_pending_all)
  next
    case 2
    have "length (pending_of u (app_coll ?d')) \<le> length (pending_of u (app_coll d))" for u
      unfolding pending_of_def 2(2)
      by (rule filter_update_first_le) (simp add: 2(1))
    with assms show ?thesis
      unfolding one_pending_all using le_trans by blast
  qed
qed

lemma review_steps:
  "list_all2 review_step (app_coll d)
     (app_coll (snd (reviewApplication d applicationId action reason adminId now)))"
proof -
  let ?d' = "snd (reviewApplication d applicationId action reason adminId now)"
  from review_app_coll [of d applicationId action reason adminId now]
  consider "app_coll ?d' = app_coll d"
    | a b where "findById_app applicationId d = Some a" "status a = Pending"
        "status b \<noteq> Pending" "app_oid b = app_oid a" "user_id b = user_id a"
        "app_coll ?d' = update_first (\<lambda>x. app_oid x = applicationId) (\<lambda>x. b) (app_coll d)"
    by blast
  then show ?thesis
  proof cases
    case 1
    then show ?thesis by (simp add: list_all2_refl review_step_def)
  next
    case 2
    have "list_all2 review_step (app_coll d)
            (update_first (\<lambda>x. app_oid x = applicationId) (\<lambda>x. b) (app_coll d))"
    proof (rule list_all2_update_first)
      show "find (\<lambda>x. app_oid x = applicationId) (app_coll d) = Some a"
        using 2(1) by (simp add: findById_app_def)
      show "review_step a b" using 2 by (simp add: review_step_def)
      show "review_step x x" for x by (simp add: review_step_def)
    qed
    with 2(6) show ?thesis by simp
  qed
qed

lemma submit_existing:
  assumes "\<exists>a \<in> set (app_coll d). user_id a = userId \<and> status a = Pending"
  shows "submitApplication d userId form files =
           (Inl (HttpError 400 ''You already have a pending middleman application''), d)"
proof -
  from assms have "find (\<lambda>a. user_id a = userId \<and> status a = Pending) (app_coll d) \<noteq> None"
    by (auto simp: find_None_iff)
  then show ?thesis
    by (auto simp: submitApplication_def)
qed

text \<open>
  C7. The invariant that no user has two pending applications is preserved by
  \<open>submitApplication\<close> and by \<open>reviewApplication\<close>, whatever their arguments and their
  outcome. A submission by a user who has a pending application is answered with 400 and
  leaves the database as it was. A review leaves every application document as it is or
  moves it from pending to a decided status.
\<close>

theorem C7_one_pending_preserved:
  assumes "one_pending d"
  shows "one_pending (snd (submitApplication d userId form files))
       \<and> one_pending (snd (reviewApplication d applicationId action reason adminId now))
       \<and> ((\<exists>a \<in> set (app_coll d). user_id a = userId \<and> status a = Pending) \<longrightarrow>
            submitApplication d userId form files =
              (Inl (HttpError 400 ''You already have a pending middleman application''), d))
       \<and> list_all2 review_step (app_coll d)
            (app_coll (snd (reviewApplication d applicationId action reason adminId now)))"
  using submit_preserves [OF assms] review_preserves [OF assms] submit_existing review_steps
  by blast

theorem C7_one_pending_preserved_witness:
  "one_pending db0
   \<and> one_pending (snd (submitApplication db0 4 form0 None))
   \<and> one_pending (snd (reviewApplication db0 10 (Some ''approve'') None 9 100))
   \<and> list_all2 review_step (app_coll db0)
        (app_coll (snd (reviewApplication db0 10 (Some ''approve'') None 9 100)))
   \<and> fst (submitApplication db0 4 form0 None) =
       Inr (HttpOk 201 ''Middleman application submitted successfully'' (Some 31))
   \<and> (\<exists>a \<in> set (app_coll db0). user_id a = 1 \<and> status a = Pending)
   \<and> submitApplication db0 1 form0 None =
       (Inl (HttpError 400 ''You already have a pending middleman application''), db0)"
proof -
  have h: "one_pending db0"
    by (simp add: one_pending_def pending_of_def db0_def mk_app_def)
  have s4: "fst (submitApplication db0 4 form0 None) =
       Inr (HttpOk 201 ''Middleman application submitted successfully'' (Some 31))"
    by (simp add: submitApplication_def falsy_def form0_def db0_def mk_app_def Let_def)
  have e1: "\<exists>a \<in> set (app_coll db0). user_id a = 1 \<and> status a = Pending"
    by (simp add: db0_def mk_app_def)
  from h s4 e1
    C7_one_pending_preserved [OF h, of 4 form0 None 10 "Some ''approve''" None 9 100]
    C7_one_pending_preserved [OF h, of 1 form0 None 10 "Some ''approve''" None 9 100]
  show ?thesis by blast
qed

section \<open>Properties of the vote toggle\<close>

lemma toggle_vote_frame: "owner (toggle_vote r u dir) = owner r \<and> res_oid (toggle_vote r u dir) = res_oid r"
  by (simp add: toggle_vote_def split: direction.splits)

lemma findById_votable_oid: "findById_votable i rs = Some r \<Longrightarrow> res_oid r = i"
  by (auto simp: findById_votable_def find_Some_iff)

lemma findById_votable_update:
  "findById_votable i rs = Some r \<Longrightarrow> res_oid r' = i \<Longrightarrow>
     findById_votable i (update_first (\<lambda>x. res_oid x = i) (\<lambda>x. r') rs) = Some r'"
  by (simp add: findById_votable_def find_update_first)

lemma vote_succeeds:
  assumes "findById_votable rid rs = Some r" and "\<not> (own_rule \<and> owner r = u)"
  shows "vote own_rule rs rid (Some u) dir =
           Inr (\<lparr>resp_upvotes = length (upvotes (toggle_vote r u dir)),
                  resp_downvotes = length (downvotes (toggle_vote r u dir)),
                  userVote = vote_state (toggle_vote r u dir) u\<rparr>,
                update_first (\<lambda>x. res_oid x = rid) (\<lambda>x. toggle_vote r u dir) rs)"
    and "findById_votable rid
           (update_first (\<lambda>x. res_oid x = rid) (\<lambda>x. toggle_vote r u dir) rs) =
           Some (toggle_vote r u dir)"
  using assms
  by (auto simp: vote_def Let_def findById_votable_update findById_votable_oid toggle_vote_frame)

lemma toggle_up_up:
  "u \<notin> set (upvotes r) \<Longrightarrow>
     u \<notin> set (upvotes (toggle_vote (toggle_vote r u Up) u Up)) \<and>
     u \<notin> set (downvotes (toggle_vote (toggle_vote r u Up) u Up))"
  by (simp add: toggle_vote_def)

lemma toggle_up_down:
  "at_most_one_vote r u \<Longrightarrow>
     u \<in> set (downvotes (toggle_vote (toggle_vote r u Up) u Down)) \<and>
     u \<notin> set (upvotes (toggle_vote (toggle_vote r u Up) u Down))"
  by (auto simp: toggle_vote_def at_most_one_vote_def)

lemma toggle_keeps_invariant:
  "at_most_one_vote r v \<Longrightarrow> at_most_one_vote (toggle_vote r u dir) v"
  by (auto simp: toggle_vote_def at_most_one_vote_def split: direction.splits)

text \<open>
  C2, as the contract of the vote toggle has it. For a stored resource and a user whose
  vote on it the controller accepts (it does not reject the vote as one on the user's own
  resource) and who is not in its \<open>upvotes\<close> list (the user has no vote or a down
  vote), two up votes in succession both succeed and leave the user in neither list, and
  the second reports the vote state \<open>null\<close>.
\<close>

theorem C2_double_up:
  assumes "findById_votable rid rs = Some r"
    and "\<not> (own_rule \<and> owner r = u)"
    and "u \<notin> set (upvotes r)"
  shows "\<exists>resp1 rs1 resp2 rs2 r2.
           vote own_rule rs rid (Some u) Up = Inr (resp1, rs1)
         \<and> vote own_rule rs1 rid (Some u) Up = Inr (resp2, rs2)
         \<and> findById_votable rid rs2 = Some r2
         \<and> u \<notin> set (upvotes r2) \<and> u \<notin> set (downvotes r2)
         \<and> userVote resp2 = None"
proof -
  let ?r1 = "toggle_vote r u Up"
  let ?rs1 = "update_first (\<lambda>x. res_oid x = rid) (\<lambda>x. ?r1) rs"
  let ?r2 = "toggle_vote ?r1 u Up"
  have own1: "\<not> (own_rule \<and> owner ?r1 = u)"
    using assms(2) by (simp add: toggle_vote_frame)
  note first = vote_succeeds [OF assms(1) assms(2), of Up]
  note second = vote_succeeds [OF first(2) own1, of Up]
  have "u \<notin> set (upvotes ?r2)" "u \<notin> set (downvotes ?r2)"
    using toggle_up_up [OF assms(3)] by simp_all
  then have "vote_state ?r2 u = None" by (simp add: vote_state_def)
  with first second \<open>u \<notin> set (upvotes ?r2)\<close> \<open>u \<notin> set (downvotes ?r2)\<close>
  show ?thesis by simp
qed

theorem C2_double_up_witness:
  "findById_votable 5 [trade0] = Some trade0
   \<and> \<not> (True \<and> owner trade0 = 2)
   \<and> 2 \<notin> set (upvotes trade0)
   \<and> (\<exists>resp1 rs1 resp2 rs2 r2.
         vote True [trade0] 5 (Some 2) Up = Inr (resp1, rs1)
       \<and> vote True rs1 5 (Some 2) Up = Inr (resp2, rs2)
       \<and> findById_votable 5 rs2 = Some r2
       \<and> 2 \<notin> set (upvotes r2) \<and> 2 \<notin> set (downvotes r2)
       \<and> userVote resp2 = None)"
proof -
  have h1: "findById_votable 5 [trade0] = Some trade0"
    by (simp add: findById_votable_def trade0_def)
  have h2: "\<not> (True \<and> owner trade0 = 2)"
    by (simp add: trade0_def)
  have h3: "2 \<notin> set (upvotes trade0)"
    by (simp add: trade0_def)
  from h1 h2 h3 C2_double_up [OF h1 h2 h3] show ?thesis by blast
qed

text \<open>
  The claim C2 as written, for every user and from any state, fails twice over. User 2 has
  an up vote on trade 5: the first up vote retracts it, the second casts it again, and
  user 2 is in \<open>upvotes\<close> with the vote state \<open>up\<close>. User 1 owns trade 5: where the
  controller enforces the rule on one's own resource, the vote is answered with the error
  and reports no vote state.
\<close>

theorem C2_counterexample:
  "vote False [trade1] 5 (Some 2) Up =
     Inr (\<lparr>resp_upvotes = 0, resp_downvotes = 0, userVote = None\<rparr>, [trade0])
   \<and> vote False [trade0] 5 (Some 2) Up =
     Inr (\<lparr>resp_upvotes = 1, resp_downvotes = 0, userVote = Some Up\<rparr>, [trade1])
   \<and> 2 \<in> set (upvotes trade1)
   \<and> owner trade0 = 1
   \<and> vote True [trade0] 5 (Some 1) Up = Inl OwnResource"
  by (simp add: vote_def findById_votable_def toggle_vote_def vote_state_def trade0_def trade1_def)

text \<open>
  C3, as the contract of the vote toggle has it. For a stored resource and a user whose
  vote on it the controller accepts (it does not reject the vote as one on the user's own
  resource) and who is not in both of its lists at once, an up vote followed by a down
  vote both succeed and leave the user in \<open>downvotes\<close> and not in \<open>upvotes\<close>, with
  the vote state \<open>down\<close>. Every vote keeps a user out of both lists at once
  (\<open>toggle_keeps_invariant\<close>).
\<close>

theorem C3_flip:
  assumes "findById_votable rid rs = Some r"
    and "\<not> (own_rule \<and> owner r = u)"
    and "at_most_one_vote r u"
  shows "\<exists>resp1 rs1 resp2 rs2 r2.
           vote own_rule rs rid (Some u) Up = Inr (resp1, rs1)
         \<and> vote own_rule rs1 rid (Some u) Down = Inr (resp2, rs2)
         \<and> findById_votable rid rs2 = Some r2
         \<and> u \<in> set (downvotes r2) \<and> u \<notin> set (upvotes r2)
         \<and> userVote resp2 = Some Down"
proof -
  let ?r1 = "toggle_vote r u Up"
  let ?r2 = "toggle_vote ?r1 u Down"
  have own1: "\<not> (own_rule \<and> owner ?r1 = u)"
    using assms(2) by (simp add: toggle_vote_frame)
  note first = vote_succeeds [OF assms(1) assms(2), of Up]
  note second = vote_succeeds [OF first(2) own1, of Down]
  have "u \<in> set (downvotes ?r2)" "u \<notin> set (upvotes ?r2)"
    using toggle_up_down [OF assms(3)] by simp_all
  then have "vote_state ?r2 u = Some Down" by (simp add: vote_state_def)
  with first second \<open>u \<in> set (downvotes ?r2)\<close> \<open>u \<notin> set (upvotes ?r2)\<close>
  show ?thesis by simp
qed

theorem C3_flip_witness:
  "findById_votable 5 [trade0] = Some trade0
   \<and> \<not> (True \<and> owner trade0 = 2)
   \<and> at_most_one_vote trade0 2
   \<and> (\<exists>resp1 rs1 resp2 rs2 r2.
         vote True [trade0] 5 (Some 2) Up = Inr (resp1, rs1)
       \<and> vote True rs1 5 (Some 2) Down = Inr (resp2, rs2)
       \<and> findById_votable 5 rs2 = Some r2
       \<and> 2 \<in> set (downvotes r2) \<and> 2 \<notin> set (upvotes r2)
       \<and> userVote resp2 = Some Down)"
proof -
  have h1: "findById_votable 5 [trade0] = Some trade0"
    by (simp add: findById_votable_def trade0_def)
  have h2: "\<not> (True \<and> owner trade0 = 2)"
    by (simp add: trade0_def)
  have h3: "at_most_one_vote trade0 2"
    by (simp add: at_most_one_vote_def trade0_def)
  from h1 h2 h3 C3_flip [OF h1 h2 h3] show ?thesis by blast
qed

text \<open>
  The claim C3 as written, for every user and every resource, fails twice over. User 1
  owns trade 5: where the controller enforces the rule on one's own resource, both votes
  are answered with the error and user 1 is not in \<open>downvotes\<close>. User 2 is in both
  lists of the trade: the up vote removes the user from \<open>upvotes\<close>, the down vote
  then removes the user from \<open>downvotes\<close>, and user 2 ends in neither list.
\<close>

theorem C3_counterexample:
  "owner trade0 = 1
   \<and> vote True [trade0] 5 (Some 1) Up = Inl OwnResource
   \<and> vote True [trade0] 5 (Some 1) Down = Inl OwnResource
   \<and> 1 \<notin> set (downvotes trade0)
   \<and> vote False [trade_both] 5 (Some 2) Up =
       Inr (\<lparr>resp_upvotes = 0, resp_downvotes = 1, userVote = Some Down\<rparr>, [trade_down])
   \<and> vote False [trade_down] 5 (Some 2) Down =
       Inr (\<lparr>resp_upvotes = 0, resp_downvotes = 0, userVote = None\<rparr>, [trade0])
   \<and> 2 \<notin> set (downvotes trade0)"
  by (simp add: vote_def findById_votable_def toggle_vote_def vote_state_def
      trade0_def trade_both_def trade_down_def)

end
